theory Spec2Isabelle
  imports Main
begin

section \<open>The Response wrapper of grequests (response.go)\<close>

text \<open>
  A shallow embedding of \<^verbatim>\<open>response.go\<close>. The Go standard library objects the file
  relies on (\<^verbatim>\<open>http.Response\<close>, its \<^verbatim>\<open>Body\<close>, \<^verbatim>\<open>bytes.Buffer\<close>,
  \<^verbatim>\<open>io.Copy\<close>, \<^verbatim>\<open>os.File\<close>, the JSON and XML decoders) are modelled by what
  they are documented to do; every method of \<^verbatim>\<open>Response\<close> is translated line by line.
  Mutation is explicit state passing: a method takes the receiver and returns it updated.
  A Go panic is a value of the result type, and the receiver's state at the moment of the panic
  is returned with it, since deferred calls still run and a caller may recover.
\<close>

subsection \<open>Values of the Go runtime\<close>

text \<open>
  A byte slice and a Go string are both sequences of bytes; \<open>char\<close> is an 8-bit value, so
  both are \<open>char list\<close>, and \<^verbatim>\<open>string(b)\<close> is the identity. The nil slice is \<open>[]\<close>.
\<close>

type_synonym bytes = "char list"

text \<open>An \<^verbatim>\<open>error\<close> value: the sentinel \<^verbatim>\<open>io.EOF\<close>, or any other error (with its message).
  The nil error is \<open>None\<close> of \<open>error option\<close>.\<close>

datatype error = EOF | Err string

datatype panic =
    NilDereference        \<comment> \<open>runtime error: invalid memory address or nil pointer dereference\<close>
  | GrowNegativeCount     \<comment> \<open>\<^verbatim>\<open>bytes.Buffer.Grow: negative count\<close>\<close>

datatype 'a result = Returns 'a | Panics panic

subsection \<open>The body of an exchange: an \<^verbatim>\<open>io.ReadCloser\<close>\<close>

text \<open>
  The body is a stream owned by the HTTP client. Its behaviour is a script: the results of
  the \<^verbatim>\<open>Read\<close> calls still to come, each the bytes delivered and the error returned with
  them; once the script is used up every \<^verbatim>\<open>Read\<close> returns \<^verbatim>\<open>(0, io.EOF)\<close>. Every
  \<^verbatim>\<open>Read\<close> is assumed to be made with a slice large enough for the bytes the script
  delivers. The numbers of \<^verbatim>\<open>Read\<close> and \<^verbatim>\<open>Close\<close> calls are recorded, so that a
  theorem can say that the stream was, or was not, touched.
\<close>

type_synonym read_result = "bytes \<times> error option"

record body =
  pending :: "read_result list"
  reads :: nat
  closes :: nat
  close_result :: "error option"

definition body_Read :: "body \<Rightarrow> read_result \<times> body" where
  "body_Read b =
     (case pending b of
        [] \<Rightarrow> (([], Some EOF), b\<lparr>reads := Suc (reads b)\<rparr>)
      | x # xs \<Rightarrow> (x, b\<lparr>pending := xs, reads := Suc (reads b)\<rparr>))"

definition body_Close :: "body \<Rightarrow> error option \<times> body" where
  "body_Close b = (close_result b, b\<lparr>closes := Suc (closes b)\<rparr>)"

subsection \<open>\<^verbatim>\<open>http.Response\<close> and \<^verbatim>\<open>Response\<close>\<close>

text \<open>\<^verbatim>\<open>http.Header\<close> is a \<^verbatim>\<open>map[string][]string\<close>; the nil map is \<open>None\<close>.\<close>

type_synonym header = "string \<rightharpoonup> string list"

text \<open>
  The fields of \<^verbatim>\<open>http.Response\<close> that response.go reads. \<^verbatim>\<open>ContentLength\<close> is an
  \<^verbatim>\<open>int64\<close>, \<open>-1\<close> when the length is unknown; \<^verbatim>\<open>int\<close> is taken to be 64 bits wide,
  so the conversion \<^verbatim>\<open>int(r.RawResponse.ContentLength)\<close> is the identity.
\<close>

record http_Response =
  resp_StatusCode :: int
  resp_Header :: "header option"
  resp_Body :: body
  resp_ContentLength :: int

text \<open>
  The struct \<^verbatim>\<open>Response\<close>. \<^verbatim>\<open>RawResponse\<close> is a pointer and may be nil;
  \<^verbatim>\<open>internalByteBuffer\<close> is a pointer to a \<^verbatim>\<open>bytes.Buffer\<close>, modelled by the unread
  bytes the buffer holds, \<open>None\<close> when the pointer is nil.
\<close>

record Response =
  Ok :: bool
  Error :: "error option"
  RawResponse :: "http_Response option"
  StatusCode :: int
  Header :: "header option"
  internalByteBuffer :: "bytes option"

text \<open>\<^verbatim>\<open>buildResponse(resp, err)\<close>. The composite literal \<^verbatim>\<open>&Response{Error: err}\<close> leaves
  every other field at its zero value. With a nil \<^verbatim>\<open>err\<close> and a nil \<^verbatim>\<open>resp\<close> the field
  access \<^verbatim>\<open>resp.StatusCode\<close> panics.\<close>

definition buildResponse :: "http_Response option \<Rightarrow> error option \<Rightarrow> Response result" where
  "buildResponse resp err =
     (if err \<noteq> None then
        Returns \<lparr>Ok = False, Error = err, RawResponse = None, StatusCode = 0,
                 Header = None, internalByteBuffer = None\<rparr>
      else
        (case resp of
           None \<Rightarrow> Panics NilDereference
         | Some rp \<Rightarrow>
             Returns \<lparr>Ok = (resp_StatusCode rp \<le> 200 \<and> resp_StatusCode rp < 300),
                      Error = None,
                      RawResponse = resp,
                      StatusCode = resp_StatusCode rp,
                      Header = resp_Header rp,
                      internalByteBuffer = None\<rparr>))"

subsection \<open>The raw pass-through: \<^verbatim>\<open>Read\<close> and \<^verbatim>\<open>Close\<close>\<close>

text \<open>\<^verbatim>\<open>return r.RawResponse.Body.Read(p)\<close>: a nil \<^verbatim>\<open>RawResponse\<close> is dereferenced.\<close>

definition Read :: "Response \<Rightarrow> read_result result \<times> Response" where
  "Read r =
     (case RawResponse r of
        None \<Rightarrow> (Panics NilDereference, r)
      | Some rp \<Rightarrow>
          (let (res, b) = body_Read (resp_Body rp)
           in (Returns res, r\<lparr>RawResponse := Some (rp\<lparr>resp_Body := b\<rparr>)\<rparr>)))"

text \<open>\<^verbatim>\<open>return r.RawResponse.Body.Close()\<close>.\<close>

definition Close :: "Response \<Rightarrow> error option result \<times> Response" where
  "Close r =
     (case RawResponse r of
        None \<Rightarrow> (Panics NilDereference, r)
      | Some rp \<Rightarrow>
          (let (res, b) = body_Close (resp_Body rp)
           in (Returns res, r\<lparr>RawResponse := Some (rp\<lparr>resp_Body := b\<rparr>)\<rparr>)))"

text \<open>
  \<^verbatim>\<open>defer r.Close()\<close>: the call runs when the surrounding function leaves, by a return or
  by a panic, and its result is dropped. If the deferred call panics itself, that panic is the
  one the caller sees; otherwise the outcome of the function body stands.
\<close>

definition defer_Close :: "'a result \<times> Response \<Rightarrow> 'a result \<times> Response" where
  "defer_Close out =
     (case Close (snd out) of
        (Panics p, r) \<Rightarrow> (Panics p, r)
      | (Returns _, r) \<Rightarrow> (fst out, r))"

subsection \<open>\<^verbatim>\<open>bytes.Buffer\<close>\<close>

text \<open>
  \<^verbatim>\<open>Grow(n)\<close> panics on a negative \<open>n\<close> and otherwise only reserves capacity: the
  unread bytes stay as they are. (That an allocation can fail for lack of memory is outside the
  model.)
\<close>

definition Buffer_Grow :: "bytes \<Rightarrow> int \<Rightarrow> bytes result" where
  "Buffer_Grow buf n = (if n < 0 then Panics GrowNegativeCount else Returns buf)"

text \<open>The number of scripted reads the raw body still holds (0 without a raw response).\<close>

definition pending_len :: "Response \<Rightarrow> nat" where
  "pending_len r =
     (case RawResponse r of None \<Rightarrow> 0 | Some rp \<Rightarrow> length (pending (resp_Body rp)))"

text \<open>
  \<^verbatim>\<open>io.Copy(r.internalByteBuffer, r)\<close>: the destination is a \<^verbatim>\<open>bytes.Buffer\<close>, so the
  copy is \<^verbatim>\<open>Buffer.ReadFrom(r)\<close>, the loop
  \<^verbatim>\<open>for { m, e := r.Read(...); append the m bytes; if e == io.EOF { return n, nil };
  if e != nil { return n, e } }\<close>.
  The buffer is passed and returned beside the receiver; \<^verbatim>\<open>Read\<close> does not touch it.
\<close>

function Buffer_ReadFrom :: "bytes \<Rightarrow> Response \<Rightarrow> error option result \<times> bytes \<times> Response" where
  "Buffer_ReadFrom buf r =
     (case Read r of
        (Panics p, r') \<Rightarrow> (Panics p, buf, r')
      | (Returns (bs, e), r') \<Rightarrow>
          (case e of
             Some EOF \<Rightarrow> (Returns None, buf @ bs, r')
           | Some (Err m) \<Rightarrow> (Returns (Some (Err m)), buf @ bs, r')
           | None \<Rightarrow> Buffer_ReadFrom (buf @ bs) r'))"
  by pat_completeness auto

termination Buffer_ReadFrom
  by (relation "measure (\<lambda>(buf, r). pending_len r)")
     (auto simp: Read_def body_Read_def pending_len_def
           split: option.splits list.splits prod.splits)

declare Buffer_ReadFrom.simps [simp del]

text \<open>
  \<^verbatim>\<open>Buffer.Read\<close>: an empty buffer is reset and answers \<^verbatim>\<open>(0, io.EOF)\<close>; otherwise the
  unread bytes are handed over and are gone from the buffer.
\<close>

definition Buffer_Read :: "Response \<Rightarrow> read_result result \<times> Response" where
  "Buffer_Read r =
     (case internalByteBuffer r of
        None \<Rightarrow> (Panics NilDereference, r)
      | Some buf \<Rightarrow>
          (if buf = [] then (Returns ([], Some EOF), r\<lparr>internalByteBuffer := Some []\<rparr>)
           else (Returns (buf, None), r\<lparr>internalByteBuffer := Some []\<rparr>)))"

subsection \<open>\<^verbatim>\<open>os.File\<close>\<close>

text \<open>
  The destination file of a download: the bytes written so far, the results of the writes
  still to come (\<open>None\<close>: the write is complete; \<open>Some (k, msg)\<close>: at most \<open>k\<close> bytes
  are written and an error with the message \<open>msg\<close> is returned; after the script every write
  is complete), and the number of \<^verbatim>\<open>Close\<close> calls. A write of a file reports a path error,
  never \<^verbatim>\<open>io.EOF\<close>, and never writes short without an error.
\<close>

record os_File =
  contents :: bytes
  write_results :: "(nat \<times> string) option list"
  file_closes :: nat

definition file_Write :: "os_File \<Rightarrow> bytes \<Rightarrow> (nat \<times> error option) \<times> os_File" where
  "file_Write f bs =
     (case write_results f of
        [] \<Rightarrow> ((length bs, None), f\<lparr>contents := contents f @ bs\<rparr>)
      | None # ws \<Rightarrow> ((length bs, None), f\<lparr>contents := contents f @ bs, write_results := ws\<rparr>)
      | Some (k, msg) # ws \<Rightarrow>
          ((min k (length bs), Some (Err msg)),
           f\<lparr>contents := contents f @ take k bs, write_results := ws\<rparr>))"

definition file_Close :: "os_File \<Rightarrow> os_File" where
  "file_Close f = f\<lparr>file_closes := Suc (file_closes f)\<rparr>"

text \<open>\<^verbatim>\<open>io.ErrShortWrite\<close>.\<close>

definition ErrShortWrite :: error where
  "ErrShortWrite = Err ''short write''"

subsection \<open>\<^verbatim>\<open>getInternalReader\<close> and \<^verbatim>\<open>io.Copy\<close> into a file\<close>

text \<open>The \<^verbatim>\<open>io.Reader\<close> that \<^verbatim>\<open>getInternalReader\<close> returns is one of two objects: the
  internal buffer, or the receiver itself (whose \<^verbatim>\<open>Read\<close> is the raw pass-through).\<close>

datatype reader = BufferReader | ResponseReader

definition getInternalReader :: "Response \<Rightarrow> reader" where
  "getInternalReader r =
     (if internalByteBuffer r \<noteq> None then BufferReader else ResponseReader)"

definition reader_Read :: "reader \<Rightarrow> Response \<Rightarrow> read_result result \<times> Response" where
  "reader_Read src r = (case src of BufferReader \<Rightarrow> Buffer_Read r | ResponseReader \<Rightarrow> Read r)"

text \<open>
  \<^verbatim>\<open>io.Copy(fd, r)\<close> with the receiver as source is the generic loop of \<^verbatim>\<open>io.Copy\<close>:
  \<^verbatim>\<open>for { nr, er := src.Read(buf)
        if nr > 0 { nw, ew := dst.Write(buf[0:nr])
                    if ew != nil { err = ew; break }
                    if nr != nw { err = ErrShortWrite; break } }
        if er != nil { if er != EOF { err = er }; break } }\<close>
\<close>

function io_Copy_generic :: "os_File \<Rightarrow> Response \<Rightarrow> error option result \<times> os_File \<times> Response" where
  "io_Copy_generic fd r =
     (case Read r of
        (Panics p, r') \<Rightarrow> (Panics p, fd, r')
      | (Returns (bs, er), r') \<Rightarrow>
          (let ((nw, ew), fd') =
                 (if bs \<noteq> [] then file_Write fd bs else ((0, None), fd))
           in if ew \<noteq> None then (Returns ew, fd', r')
              else if bs \<noteq> [] \<and> length bs \<noteq> nw then (Returns (Some ErrShortWrite), fd', r')
              else (case er of
                      Some EOF \<Rightarrow> (Returns None, fd', r')
                    | Some (Err m) \<Rightarrow> (Returns (Some (Err m)), fd', r')
                    | None \<Rightarrow> io_Copy_generic fd' r')))"
  by pat_completeness auto
termination io_Copy_generic
  by (relation "measure (\<lambda>(fd, r). pending_len r)")
     (auto simp: Read_def body_Read_def pending_len_def
           split: option.splits list.splits prod.splits)

declare io_Copy_generic.simps [simp del]

text \<open>
  \<^verbatim>\<open>io.Copy(fd, r.internalByteBuffer)\<close>: a \<^verbatim>\<open>bytes.Buffer\<close> is an \<^verbatim>\<open>io.WriterTo\<close>, so
  the copy is \<^verbatim>\<open>Buffer.WriteTo(fd)\<close>: one write of the unread bytes; the bytes written are
  consumed, and after a complete write the buffer is reset.
\<close>

definition Buffer_WriteTo :: "os_File \<Rightarrow> Response \<Rightarrow> error option result \<times> os_File \<times> Response" where
  "Buffer_WriteTo fd r =
     (case internalByteBuffer r of
        None \<Rightarrow> (Panics NilDereference, fd, r)
      | Some buf \<Rightarrow>
          (if buf \<noteq> [] then
             (let ((m, e), fd') = file_Write fd buf;
                  r' = r\<lparr>internalByteBuffer := Some (drop m buf)\<rparr>
              in if e \<noteq> None then (Returns e, fd', r')
                 else if m \<noteq> length buf then (Returns (Some ErrShortWrite), fd', r')
                 else (Returns None, fd', r\<lparr>internalByteBuffer := Some []\<rparr>))
           else (Returns None, fd, r\<lparr>internalByteBuffer := Some []\<rparr>)))"

definition io_Copy :: "os_File \<Rightarrow> reader \<Rightarrow> Response \<Rightarrow> error option result \<times> os_File \<times> Response" where
  "io_Copy fd src r =
     (case src of BufferReader \<Rightarrow> Buffer_WriteTo fd r | ResponseReader \<Rightarrow> io_Copy_generic fd r)"

text \<open>The test \<^verbatim>\<open>if err != nil && err != io.EOF { return err }; return nil\<close> that follows
  the copy and the decoders.\<close>

definition drop_EOF :: "error option result \<Rightarrow> error option result" where
  "drop_EOF res =
     (case res of
        Panics p \<Rightarrow> Panics p
      | Returns err \<Rightarrow> (if err \<noteq> None \<and> err \<noteq> Some EOF then Returns err else Returns None))"

subsection \<open>\<^verbatim>\<open>DownloadToFile\<close>\<close>

text \<open>
  \<^verbatim>\<open>os_Create\<close> is the file system's answer to \<^verbatim>\<open>os.Create(fileName)\<close>: an error or the
  opened file. The third component of the result is the file as the call leaves it (\<open>None\<close>
  when none was created). The deferred calls run in reverse order: \<^verbatim>\<open>fd.Close()\<close>, then
  \<^verbatim>\<open>r.Close()\<close>.
\<close>

definition DownloadToFile ::
  "(string \<Rightarrow> error + os_File) \<Rightarrow> Response \<Rightarrow> string
     \<Rightarrow> error option result \<times> Response \<times> os_File option" where
  "DownloadToFile os_Create r fileName =
     (case os_Create fileName of
        Inl err \<Rightarrow> (Returns (Some err), r, None)
      | Inr fd \<Rightarrow>
          (let (res, fd1, r1) = io_Copy fd (getInternalReader r) r;
               fd2 = file_Close fd1;
               (out, r2) = defer_Close (drop_EOF res, r1)
           in (out, r2, Some fd2)))"

subsection \<open>\<^verbatim>\<open>Xml\<close> and \<^verbatim>\<open>Json\<close>\<close>

text \<open>
  A decoder, as far as response.go can observe it: \<^verbatim>\<open>Decode\<close> reads from its source any
  number of times and in the end returns an error or nil. What it stores into
  \<^verbatim>\<open>userStruct\<close> is not modelled.
\<close>

datatype decoder = Done "error option" | NeedRead "read_result \<Rightarrow> decoder"

primrec Decode :: "decoder \<Rightarrow> reader \<Rightarrow> Response \<Rightarrow> error option result \<times> Response" where
  "Decode (Done e) src r = (Returns e, r)"
| "Decode (NeedRead k) src r =
     (case reader_Read src r of
        (Panics p, r') \<Rightarrow> (Panics p, r')
      | (Returns res, r') \<Rightarrow> Decode (k res) src r')"

text \<open>
  \<^verbatim>\<open>Xml(userStruct, charsetReader)\<close>. \<open>xml_NewDecoder\<close> gives the behaviour of the decoder
  for the value of its \<^verbatim>\<open>CharsetReader\<close> field, which is nil unless \<^verbatim>\<open>charsetReader\<close>
  is given.
\<close>

definition Xml :: "('c option \<Rightarrow> decoder) \<Rightarrow> Response \<Rightarrow> 'c option \<Rightarrow> error option result \<times> Response" where
  "Xml xml_NewDecoder r charsetReader =
     (let src = getInternalReader r;
          CharsetReader = (if charsetReader \<noteq> None then charsetReader else None);
          (res, r1) = Decode (xml_NewDecoder CharsetReader) src r
      in defer_Close (drop_EOF res, r1))"

definition Json :: "decoder \<Rightarrow> Response \<Rightarrow> error option result \<times> Response" where
  "Json json_NewDecoder r =
     (let src = getInternalReader r;
          (res, r1) = Decode json_NewDecoder src r
      in defer_Close (drop_EOF res, r1))"

subsection \<open>Buffering: \<^verbatim>\<open>respBytesBuffer\<close>, \<^verbatim>\<open>Bytes\<close>, \<^verbatim>\<open>String\<close>, \<^verbatim>\<open>ClearInternalBuffer\<close>\<close>

text \<open>
  \<^verbatim>\<open>respBytesBuffer\<close>. The new buffer is stored in the receiver before anything is read, and
  no path takes it out again. \<^verbatim>\<open>defer r.Close()\<close> is registered after the nil test, so it
  runs on every path below it.
\<close>

definition respBytesBuffer :: "Response \<Rightarrow> error option result \<times> Response" where
  "respBytesBuffer r =
     (if internalByteBuffer r \<noteq> None then (Returns None, r)
      else
        (let r1 = r\<lparr>internalByteBuffer := Some []\<rparr>
         in defer_Close
              (case RawResponse r1 of
                 None \<Rightarrow> (Panics NilDereference, r1)
               | Some rp \<Rightarrow>
                   (case Buffer_Grow [] (resp_ContentLength rp) of
                      Panics p \<Rightarrow> (Panics p, r1)
                    | Returns buf \<Rightarrow>
                        (let (res, buf', r2) = Buffer_ReadFrom buf r1
                         in (drop_EOF res, r2\<lparr>internalByteBuffer := Some buf'\<rparr>))))))"

text \<open>\<^verbatim>\<open>Bytes\<close>: \<^verbatim>\<open>Buffer.Bytes()\<close> is the unread part of the buffer, and dereferences its
  receiver.\<close>

definition Bytes :: "Response \<Rightarrow> bytes result \<times> Response" where
  "Bytes r =
     (case respBytesBuffer r of
        (Panics p, r') \<Rightarrow> (Panics p, r')
      | (Returns err, r') \<Rightarrow>
          (if err \<noteq> None then (Returns [], r')
           else (case internalByteBuffer r' of
                   None \<Rightarrow> (Panics NilDereference, r')
                 | Some buf \<Rightarrow> (Returns buf, r'))))"

text \<open>\<^verbatim>\<open>String\<close>: \<^verbatim>\<open>Buffer.String()\<close> is the unread part as a string, and answers
  \<^verbatim>\<open>"<nil>"\<close> on a nil receiver.\<close>

definition String :: "Response \<Rightarrow> string result \<times> Response" where
  "String r =
     (case respBytesBuffer r of
        (Panics p, r') \<Rightarrow> (Panics p, r')
      | (Returns err, r') \<Rightarrow>
          (if err \<noteq> None then (Returns '''', r')
           else (case internalByteBuffer r' of
                   None \<Rightarrow> (Returns ''<nil>'', r')
                 | Some buf \<Rightarrow> (Returns buf, r'))))"

text \<open>\<^verbatim>\<open>ClearInternalBuffer\<close>: \<^verbatim>\<open>r.internalByteBuffer.Reset()\<close> writes to the fields of the
  buffer, so it dereferences the pointer; then the pointer is set to nil.\<close>

definition ClearInternalBuffer :: "Response \<Rightarrow> unit result \<times> Response" where
  "ClearInternalBuffer r =
     (case internalByteBuffer r of
        None \<Rightarrow> (Panics NilDereference, r)
      | Some buf \<Rightarrow> (Returns (), r\<lparr>internalByteBuffer := None\<rparr>))"

subsection \<open>Observations and sample inputs\<close>

text \<open>The number of \<^verbatim>\<open>Close\<close> calls the raw body has received (0 without a raw response).\<close>

definition body_closes :: "Response \<Rightarrow> nat" where
  "body_closes r = (case RawResponse r of None \<Rightarrow> 0 | Some rp \<Rightarrow> closes (resp_Body rp))"

text \<open>The number of \<^verbatim>\<open>Read\<close> calls the raw body has received.\<close>

definition body_reads :: "Response \<Rightarrow> nat" where
  "body_reads r = (case RawResponse r of None \<Rightarrow> 0 | Some rp \<Rightarrow> reads (resp_Body rp))"

text \<open>A completed exchange with the given status code, body script and declared length; the
  body has not been read or closed, and closing it succeeds.\<close>

definition exchange :: "int \<Rightarrow> read_result list \<Rightarrow> int \<Rightarrow> http_Response" where
  "exchange status script len =
     \<lparr>resp_StatusCode = status,
      resp_Header = Some Map.empty,
      resp_Body = \<lparr>pending = script, reads = 0, closes = 0, close_result = None\<rparr>,
      resp_ContentLength = len\<rparr>"

text \<open>A file system in which \<^verbatim>\<open>os.Create\<close> succeeds with an empty file whose writes
  follow the given script.\<close>

definition create_ok :: "(nat \<times> string) option list \<Rightarrow> string \<Rightarrow> error + os_File" where
  "create_ok ws fileName = Inr \<lparr>contents = [], write_results = ws, file_closes = 0\<rparr>"

text \<open>A decoder that reads once: on no bytes it returns the error of the read (\<^verbatim>\<open>io.EOF\<close>
  at the end of the stream), on the document \<^verbatim>\<open>{}\<close> it returns nil, on anything else a
  syntax error.\<close>

definition sample_decoder :: decoder where
  "sample_decoder =
     NeedRead (\<lambda>res.
       if fst res = [] then Done (case snd res of None \<Rightarrow> Some EOF | Some e \<Rightarrow> Some e)
       else if fst res = ''{}'' then Done None
       else Done (Some (Err ''invalid character'')))"

text \<open>What a reader that reads a body script to its end is given: the bytes up to and
  including the first read that carries an error, and that error (\<^verbatim>\<open>io.EOF\<close> when the
  script runs out).\<close>

fun stream_bytes :: "read_result list \<Rightarrow> bytes" where
  "stream_bytes [] = []"
| "stream_bytes ((bs, e) # xs) = (if e = None then bs @ stream_bytes xs else bs)"

fun stream_error :: "read_result list \<Rightarrow> error" where
  "stream_error [] = EOF"
| "stream_error ((bs, e) # xs) = (case e of None \<Rightarrow> stream_error xs | Some x \<Rightarrow> x)"

section \<open>Construction\<close>

lemma buildResponse_Ok:
  "buildResponse (Some rp) None = Returns r \<Longrightarrow> Ok r = (resp_StatusCode rp \<le> 200)"
  by (auto simp: buildResponse_def)

text \<open>
  C1. The claim: without a transport error, \<open>Ok\<close> is true exactly for the status codes from
  200 to 299. The code computes \<^verbatim>\<open>StatusCode <= 200 && StatusCode < 300\<close>: the
  informational code 100 is flagged \<open>Ok\<close>, and the success code 201 is not.
\<close>

theorem buildResponse_Ok_100_201:
  "map_result Ok (buildResponse (Some (exchange 100 [] 0)) None) = Returns True \<and>
   map_result Ok (buildResponse (Some (exchange 201 [] 0)) None) = Returns False"
  by (simp add: buildResponse_def exchange_def)

text \<open>
  C5. A construction call with a non-nil transport error returns a Response that carries the
  error and nothing else: \<open>Ok\<close> is false, the status code is 0, and the header mapping, the
  raw response and the internal buffer are nil.
\<close>

theorem buildResponse_transport_error:
  assumes "err \<noteq> None"
  shows "buildResponse resp err =
           Returns \<lparr>Ok = False, Error = err, RawResponse = None, StatusCode = 0,
                    Header = None, internalByteBuffer = None\<rparr>"
  using assms by (simp add: buildResponse_def)

theorem buildResponse_transport_error_witness:
  "Some (Err ''dial tcp: i/o timeout'') \<noteq> None \<and>
   buildResponse (Some (exchange 200 [(''hello'', None)] 5)) (Some (Err ''dial tcp: i/o timeout'')) =
     Returns \<lparr>Ok = False, Error = Some (Err ''dial tcp: i/o timeout''), RawResponse = None,
              StatusCode = 0, Header = None, internalByteBuffer = None\<rparr>"
  using buildResponse_transport_error
          [of "Some (Err ''dial tcp: i/o timeout'')" "Some (exchange 200 [(''hello'', None)] 5)"]
  by simp

section \<open>The raw pass-through\<close>

text \<open>
  C10. A Response constructed from a transport error has a nil \<^verbatim>\<open>RawResponse\<close>: the
  construction returns, and on the Response it returns both \<^verbatim>\<open>Read\<close> and \<^verbatim>\<open>Close\<close>
  panic with a nil dereference (leaving the Response as it was) instead of returning an error.
\<close>

theorem Read_Close_panic_after_transport_error:
  assumes "err \<noteq> None"
  shows "\<exists>r. buildResponse resp err = Returns r \<and>
             Read r = (Panics NilDereference, r) \<and>
             Close r = (Panics NilDereference, r)"
  using assms by (simp add: buildResponse_def Read_def Close_def)

theorem Read_Close_panic_after_transport_error_witness:
  "Some (Err ''no such host'') \<noteq> None \<and>
   (\<exists>r. buildResponse None (Some (Err ''no such host'')) = Returns r \<and>
        Read r = (Panics NilDereference, r) \<and>
        Close r = (Panics NilDereference, r))"
  using Read_Close_panic_after_transport_error [of "Some (Err ''no such host'')" None]
  by simp

section \<open>Basic facts about the pass-through and the deferred \<^verbatim>\<open>Close\<close>\<close>

lemma Read_Nil:
  assumes "RawResponse r = Some rp" and "pending (resp_Body rp) = []"
  shows "Read r =
    (Returns ([], Some EOF),
     r\<lparr>RawResponse := Some (rp\<lparr>resp_Body := (resp_Body rp)\<lparr>reads := Suc (reads (resp_Body rp))\<rparr>\<rparr>)\<rparr>)"
  using assms by (simp add: Read_def body_Read_def)

lemma Read_Cons:
  assumes "RawResponse r = Some rp" and "pending (resp_Body rp) = x # xs"
  shows "Read r =
    (Returns x,
     r\<lparr>RawResponse := Some (rp\<lparr>resp_Body :=
        (resp_Body rp)\<lparr>pending := xs, reads := Suc (reads (resp_Body rp))\<rparr>\<rparr>)\<rparr>)"
  using assms by (simp add: Read_def body_Read_def)

lemma defer_Close_buffer:
  "internalByteBuffer (snd (defer_Close (res, r))) = internalByteBuffer r"
  by (auto simp: defer_Close_def Close_def body_Close_def split: option.splits prod.splits result.splits)

lemma defer_Close_raw:
  assumes "RawResponse r \<noteq> None"
  shows "fst (defer_Close (res, r)) = res"
    and "body_closes (snd (defer_Close (res, r))) = Suc (body_closes r)"
    and "RawResponse (snd (defer_Close (res, r))) \<noteq> None"
  using assms
  by (auto simp: defer_Close_def Close_def body_Close_def body_closes_def split: prod.splits)

lemma drop_EOF_Returns:
  "drop_EOF (Returns e) = Returns (if e = Some EOF then None else e)"
  by (simp add: drop_EOF_def)

section \<open>Buffering\<close>

lemma respBytesBuffer_buffer:
  "internalByteBuffer (snd (respBytesBuffer r)) \<noteq> None"
  by (auto simp: respBytesBuffer_def defer_Close_buffer Let_def
           split: option.splits prod.splits result.splits)

lemma Buffer_ReadFrom_script:
  assumes "RawResponse r = Some rp" and "pending (resp_Body rp) = s"
  shows "\<exists>r'. Buffer_ReadFrom buf r =
           (Returns (if stream_error s = EOF then None else Some (stream_error s)),
            buf @ stream_bytes s, r') \<and>
           RawResponse r' \<noteq> None \<and> body_closes r' = body_closes r"
  using assms
proof (induction s arbitrary: buf r rp)
  case Nil
  then show ?case
    by (subst Buffer_ReadFrom.simps) (simp add: Read_Nil body_closes_def)
next
  case (Cons x xs)
  obtain bs er where x: "x = (bs, er)"
    by (cases x)
  define rp1 where "rp1 = rp\<lparr>resp_Body :=
        (resp_Body rp)\<lparr>pending := xs, reads := Suc (reads (resp_Body rp))\<rparr>\<rparr>"
  define r1 where "r1 = r\<lparr>RawResponse := Some rp1\<rparr>"
  have rd: "Read r = (Returns (bs, er), r1)"
    using Read_Cons [OF Cons.prems] by (simp add: x r1_def rp1_def)
  have frame: "RawResponse r1 \<noteq> None" "body_closes r1 = body_closes r"
    using Cons.prems(1) by (simp_all add: r1_def rp1_def body_closes_def)
  have IH: "\<exists>r'. Buffer_ReadFrom (buf @ bs) r1 =
           (Returns (if stream_error xs = EOF then None else Some (stream_error xs)),
            (buf @ bs) @ stream_bytes xs, r') \<and>
           RawResponse r' \<noteq> None \<and> body_closes r' = body_closes r1"
    by (rule Cons.IH [of r1 rp1 "buf @ bs"]) (simp_all add: r1_def rp1_def)
  show ?case
    using rd frame IH
    by (subst Buffer_ReadFrom.simps) (auto simp: x split: option.splits error.splits)
qed

text \<open>
  What \<^verbatim>\<open>respBytesBuffer\<close> does on a Response that has a raw response, no buffer yet and
  a declared length that is not negative: it returns nil when the body ends with
  \<^verbatim>\<open>io.EOF\<close> and the body's read error otherwise; either way the buffer is left in place,
  holding the bytes read so far, and the body is closed.
\<close>

lemma respBytesBuffer_raw:
  assumes "RawResponse r = Some rp" and "internalByteBuffer r = None"
    and "0 \<le> resp_ContentLength rp"
  shows "fst (respBytesBuffer r) =
           Returns (if stream_error (pending (resp_Body rp)) = EOF then None
                    else Some (stream_error (pending (resp_Body rp))))"
    and "internalByteBuffer (snd (respBytesBuffer r)) = Some (stream_bytes (pending (resp_Body rp)))"
    and "body_closes (snd (respBytesBuffer r)) = Suc (body_closes r)"
proof -
  define r1 where "r1 = r\<lparr>internalByteBuffer := Some []\<rparr>"
  have raw1: "RawResponse r1 = Some rp" and cl1: "body_closes r1 = body_closes r"
    using assms(1) by (simp_all add: r1_def body_closes_def)
  from Buffer_ReadFrom_script [OF raw1 refl, of "[]"] obtain r2 where
    copy: "Buffer_ReadFrom [] r1 =
      (Returns (if stream_error (pending (resp_Body rp)) = EOF then None
                else Some (stream_error (pending (resp_Body rp)))),
       stream_bytes (pending (resp_Body rp)), r2)"
    and raw2: "RawResponse r2 \<noteq> None" and cl2: "body_closes r2 = body_closes r1"
    by auto
  define r3 where "r3 = r2\<lparr>internalByteBuffer := Some (stream_bytes (pending (resp_Body rp)))\<rparr>"
  have raw3: "RawResponse r3 \<noteq> None" and cl3: "body_closes r3 = body_closes r"
    using raw2 cl2 cl1 by (simp_all add: r3_def body_closes_def)
  have run: "respBytesBuffer r =
      defer_Close
        (Returns (if stream_error (pending (resp_Body rp)) = EOF then None
                  else Some (stream_error (pending (resp_Body rp)))), r3)"
    using assms raw1 copy
    by (simp add: respBytesBuffer_def Buffer_Grow_def drop_EOF_def r1_def [symmetric] r3_def)
  show "fst (respBytesBuffer r) =
           Returns (if stream_error (pending (resp_Body rp)) = EOF then None
                    else Some (stream_error (pending (resp_Body rp))))"
    by (simp only: run defer_Close_raw(1) [OF raw3])
  show "internalByteBuffer (snd (respBytesBuffer r)) = Some (stream_bytes (pending (resp_Body rp)))"
    by (simp add: run defer_Close_buffer r3_def)
  show "body_closes (snd (respBytesBuffer r)) = Suc (body_closes r)"
    by (simp only: run defer_Close_raw(2) [OF raw3] cl3)
qed

text \<open>
  C2. The claim: when the read fails midway, \<^verbatim>\<open>respBytesBuffer\<close> returns the error and
  leaves the internal buffer nil. On a body that delivers \<^verbatim>\<open>he\<close> and then fails, the code
  returns the error, but the buffer it stored before reading stays in place with the two bytes:
  the next \<^verbatim>\<open>respBytesBuffer\<close> returns nil and \<^verbatim>\<open>Bytes\<close> returns \<^verbatim>\<open>he\<close>.
\<close>

theorem respBytesBuffer_keeps_partial_bytes:
  "(case buildResponse
           (Some (exchange 200 [(''he'', None), ('''', Some (Err ''connection reset by peer''))] 5))
           None of
      Panics p \<Rightarrow> False
    | Returns r \<Rightarrow>
        fst (respBytesBuffer r) = Returns (Some (Err ''connection reset by peer'')) \<and>
        internalByteBuffer (snd (respBytesBuffer r)) = Some ''he'' \<and>
        fst (respBytesBuffer (snd (respBytesBuffer r))) = Returns None \<and>
        fst (Bytes (snd (respBytesBuffer r))) = Returns ''he'')"
  by (simp add: buildResponse_def exchange_def Bytes_def respBytesBuffer_def defer_Close_def
        Close_def body_Close_def Buffer_Grow_def Buffer_ReadFrom.simps Read_def body_Read_def
        drop_EOF_def)

text \<open>
  C3. The claim: \<^verbatim>\<open>ClearInternalBuffer\<close> on a Response whose buffer was never created is a
  guarded no-op. The code has no guard: on a freshly constructed Response the call
  \<^verbatim>\<open>r.internalByteBuffer.Reset()\<close> dereferences the nil buffer and panics.
\<close>

theorem ClearInternalBuffer_fresh_panics:
  "(case buildResponse (Some (exchange 200 [(''hello'', None)] 5)) None of
      Panics p \<Rightarrow> False
    | Returns r \<Rightarrow> ClearInternalBuffer r = (Panics NilDereference, r))"
  by (simp add: buildResponse_def ClearInternalBuffer_def)

text \<open>
  C4. \<^verbatim>\<open>respBytesBuffer\<close> is idempotent: after a call that returned nil, the Response holds
  a buffer, and a second call returns nil and leaves the Response exactly as it was: the same
  buffer contents, and the same raw body with no further \<^verbatim>\<open>Read\<close> or \<^verbatim>\<open>Close\<close>.
\<close>

theorem respBytesBuffer_idempotent:
  assumes "respBytesBuffer r = (Returns None, r')"
  shows "respBytesBuffer r' = (Returns None, r') \<and>
         (\<exists>buf. internalByteBuffer r' = Some buf) \<and>
         body_reads (snd (respBytesBuffer r')) = body_reads r'"
proof -
  have "internalByteBuffer (snd (respBytesBuffer r)) \<noteq> None"
    by (rule respBytesBuffer_buffer)
  with assms have buf: "internalByteBuffer r' \<noteq> None"
    by simp
  then have "respBytesBuffer r' = (Returns None, r')"
    by (simp add: respBytesBuffer_def)
  with buf show ?thesis
    by auto
qed

theorem respBytesBuffer_idempotent_witness:
  "\<exists>r r'. buildResponse (Some (exchange 200 [(''he'', None), (''llo'', None)] 5)) None = Returns r \<and>
          internalByteBuffer r = None \<and>
          respBytesBuffer r = (Returns None, r') \<and>
          respBytesBuffer r' = (Returns None, r') \<and>
          internalByteBuffer r' = Some ''hello'' \<and>
          body_reads r' = 3 \<and>
          body_reads (snd (respBytesBuffer r')) = 3"
proof -
  define r where "r =
    \<lparr>Ok = True, Error = None,
     RawResponse = Some (exchange 200 [(''he'', None), (''llo'', None)] 5),
     StatusCode = 200, Header = Some Map.empty, internalByteBuffer = None\<rparr>"
  define r' where "r' = snd (respBytesBuffer r)"
  have built: "buildResponse (Some (exchange 200 [(''he'', None), (''llo'', None)] 5)) None = Returns r"
    by (simp add: r_def buildResponse_def exchange_def)
  have run: "respBytesBuffer r =
      (Returns None,
       r\<lparr>RawResponse := Some ((exchange 200 [] 5)
              \<lparr>resp_Body := \<lparr>pending = [], reads = 3, closes = 1, close_result = None\<rparr>\<rparr>),
         internalByteBuffer := Some ''hello''\<rparr>)"
    by (simp add: r_def respBytesBuffer_def exchange_def defer_Close_def Close_def
          body_Close_def Buffer_Grow_def Buffer_ReadFrom.simps Read_def body_Read_def
          drop_EOF_def)
  then have first: "respBytesBuffer r = (Returns None, r')"
    by (simp add: r'_def)
  have contents: "internalByteBuffer r' = Some ''hello''" and count: "body_reads r' = 3"
    using run by (simp_all add: r'_def body_reads_def)
  have none: "internalByteBuffer r = None"
    by (simp add: r_def)
  from respBytesBuffer_idempotent [OF first] count
  have "respBytesBuffer r' = (Returns None, r')"
    and "body_reads (snd (respBytesBuffer r')) = 3"
    by simp_all
  with built none first contents count show ?thesis
    by blast
qed

text \<open>
  C6. \<^verbatim>\<open>Bytes\<close> and \<^verbatim>\<open>String\<close> swallow the error of the buffering step: when
  \<^verbatim>\<open>respBytesBuffer\<close> returns an error, \<^verbatim>\<open>Bytes\<close> returns the empty slice and
  \<^verbatim>\<open>String\<close> the empty string; when it returns nil, they return the contents of the buffer
  as bytes and as text. In both cases the Response is left as \<^verbatim>\<open>respBytesBuffer\<close> left it.
\<close>

theorem Bytes_String_swallow_error:
  assumes "respBytesBuffer r1 = (Returns (Some e), r1')"
    and "respBytesBuffer r2 = (Returns None, r2')"
  shows "Bytes r1 = (Returns [], r1') \<and> String r1 = (Returns '''', r1') \<and>
         (\<exists>buf. internalByteBuffer r2' = Some buf \<and>
                Bytes r2 = (Returns buf, r2') \<and> String r2 = (Returns buf, r2'))"
proof -
  have "internalByteBuffer (snd (respBytesBuffer r2)) \<noteq> None"
    by (rule respBytesBuffer_buffer)
  with assms(2) obtain buf where "internalByteBuffer r2' = Some buf"
    by auto
  with assms show ?thesis
    by (simp add: Bytes_def String_def)
qed

theorem Bytes_String_swallow_error_witness:
  "\<exists>r1 r1' r2 r2'.
     buildResponse
       (Some (exchange 200 [(''he'', None), ('''', Some (Err ''connection reset by peer''))] 5))
       None = Returns r1 \<and>
     buildResponse (Some (exchange 200 [(''hello'', None)] 5)) None = Returns r2 \<and>
     respBytesBuffer r1 = (Returns (Some (Err ''connection reset by peer'')), r1') \<and>
     respBytesBuffer r2 = (Returns None, r2') \<and>
     Bytes r1 = (Returns [], r1') \<and> String r1 = (Returns '''', r1') \<and>
     Bytes r2 = (Returns ''hello'', r2') \<and> String r2 = (Returns ''hello'', r2')"
proof -
  define r1 where "r1 =
    \<lparr>Ok = True, Error = None,
     RawResponse =
       Some (exchange 200 [(''he'', None), ('''', Some (Err ''connection reset by peer''))] 5),
     StatusCode = 200, Header = Some Map.empty, internalByteBuffer = None\<rparr>"
  define r2 where "r2 =
    \<lparr>Ok = True, Error = None, RawResponse = Some (exchange 200 [(''hello'', None)] 5),
     StatusCode = 200, Header = Some Map.empty, internalByteBuffer = None\<rparr>"
  define r1' where "r1' = snd (respBytesBuffer r1)"
  define r2' where "r2' = snd (respBytesBuffer r2)"
  have built1: "buildResponse
       (Some (exchange 200 [(''he'', None), ('''', Some (Err ''connection reset by peer''))] 5))
       None = Returns r1"
    by (simp add: r1_def buildResponse_def exchange_def)
  have built2: "buildResponse (Some (exchange 200 [(''hello'', None)] 5)) None = Returns r2"
    by (simp add: r2_def buildResponse_def exchange_def)
  have "fst (respBytesBuffer r1) = Returns (Some (Err ''connection reset by peer''))"
    by (simp add: r1_def respBytesBuffer_def exchange_def defer_Close_def Close_def
          body_Close_def Buffer_Grow_def Buffer_ReadFrom.simps Read_def body_Read_def
          drop_EOF_def)
  then have fails: "respBytesBuffer r1 = (Returns (Some (Err ''connection reset by peer'')), r1')"
    by (simp add: r1'_def prod_eq_iff)
  have "fst (respBytesBuffer r2) = Returns None"
    and contents: "internalByteBuffer (snd (respBytesBuffer r2)) = Some ''hello''"
    by (simp_all add: r2_def respBytesBuffer_def exchange_def defer_Close_def Close_def
          body_Close_def Buffer_Grow_def Buffer_ReadFrom.simps Read_def body_Read_def
          drop_EOF_def)
  then have succeeds: "respBytesBuffer r2 = (Returns None, r2')"
    by (simp add: r2'_def prod_eq_iff)
  from Bytes_String_swallow_error [OF fails succeeds] contents
  have "Bytes r1 = (Returns [], r1')" and "String r1 = (Returns '''', r1')"
    and "Bytes r2 = (Returns ''hello'', r2')" and "String r2 = (Returns ''hello'', r2')"
    by (auto simp: r2'_def)
  with built1 built2 fails succeeds show ?thesis
    by blast
qed

text \<open>
  C9. A Response without a buffer whose exchange declared a negative content length (the
  length is unknown, as for a chunked body): \<^verbatim>\<open>respBytesBuffer\<close> panics in
  \<^verbatim>\<open>Buffer.Grow\<close>, which is handed the negative length, and so do \<^verbatim>\<open>Bytes\<close> and
  \<^verbatim>\<open>String\<close>.
\<close>

theorem respBytesBuffer_negative_ContentLength:
  assumes "RawResponse r = Some rp"
    and "resp_ContentLength rp < 0"
    and "internalByteBuffer r = None"
  shows "fst (respBytesBuffer r) = Panics GrowNegativeCount \<and>
         fst (Bytes r) = Panics GrowNegativeCount \<and>
         fst (String r) = Panics GrowNegativeCount"
  using assms
  by (simp add: Bytes_def String_def respBytesBuffer_def Buffer_Grow_def defer_Close_def
        Close_def body_Close_def split: prod.splits)

theorem respBytesBuffer_negative_ContentLength_witness:
  "\<exists>r. buildResponse (Some (exchange 200 [(''hello'', None)] (- 1))) None = Returns r \<and>
       RawResponse r = Some (exchange 200 [(''hello'', None)] (- 1)) \<and>
       resp_ContentLength (exchange 200 [(''hello'', None)] (- 1)) < 0 \<and>
       internalByteBuffer r = None \<and>
       fst (respBytesBuffer r) = Panics GrowNegativeCount \<and>
       fst (Bytes r) = Panics GrowNegativeCount \<and>
       fst (String r) = Panics GrowNegativeCount"
proof -
  define r where "r =
    \<lparr>Ok = True, Error = None, RawResponse = Some (exchange 200 [(''hello'', None)] (- 1)),
     StatusCode = 200, Header = Some Map.empty, internalByteBuffer = None\<rparr>"
  have built: "buildResponse (Some (exchange 200 [(''hello'', None)] (- 1))) None = Returns r"
    by (simp add: r_def buildResponse_def exchange_def)
  have raw: "RawResponse r = Some (exchange 200 [(''hello'', None)] (- 1))"
    and len: "resp_ContentLength (exchange 200 [(''hello'', None)] (- 1)) < 0"
    and none: "internalByteBuffer r = None"
    by (simp_all add: r_def exchange_def)
  from respBytesBuffer_negative_ContentLength [OF raw len none] built raw len none
  show ?thesis
    by blast
qed

section \<open>Decoding\<close>

lemma reader_Read_raw:
  assumes "RawResponse r \<noteq> None"
  shows "\<exists>res. fst (reader_Read (getInternalReader r) r) = Returns res"
    and "RawResponse (snd (reader_Read (getInternalReader r) r)) \<noteq> None"
    and "body_closes (snd (reader_Read (getInternalReader r) r)) = body_closes r"
    and "getInternalReader (snd (reader_Read (getInternalReader r) r)) = getInternalReader r"
  using assms
  by (auto simp: reader_Read_def getInternalReader_def Buffer_Read_def Read_def body_Read_def
        body_closes_def split: list.splits if_splits)

lemma Decode_raw:
  assumes "RawResponse r \<noteq> None" and "src = getInternalReader r"
  shows "\<exists>e r'. Decode d src r = (Returns e, r') \<and>
           RawResponse r' \<noteq> None \<and> body_closes r' = body_closes r"
  using assms
proof (induction d arbitrary: r)
  case (Done e)
  then show ?case by simp
next
  case (NeedRead k)
  obtain out r1 where rd: "reader_Read (getInternalReader r) r = (out, r1)"
    by (cases "reader_Read (getInternalReader r) r")
  with reader_Read_raw [OF NeedRead.prems(1)] obtain res where
    out: "out = Returns res"
    and raw: "RawResponse r1 \<noteq> None"
    and cl: "body_closes r1 = body_closes r"
    and src: "getInternalReader r1 = getInternalReader r"
    by auto
  have "k res \<in> range k" by simp
  from NeedRead.IH [OF this raw] src NeedRead.prems(2) obtain e r' where
    "Decode (k res) src r1 = (Returns e, r')" "RawResponse r' \<noteq> None"
    "body_closes r' = body_closes r1"
    by auto
  with rd out cl NeedRead.prems(2) show ?case
    by simp
qed

text \<open>
  C7, as the claim states it, fails on a Response constructed from a transport error: there
  \<^verbatim>\<open>Json\<close> and \<^verbatim>\<open>Xml\<close> do not return at all. The decoder's first read and the
  deferred \<^verbatim>\<open>Close\<close> both dereference the nil \<^verbatim>\<open>RawResponse\<close>, and the call panics.
\<close>

theorem Json_Xml_panic_after_transport_error:
  "(case buildResponse None (Some (Err ''no such host'')) of
      Panics p \<Rightarrow> False
    | Returns r \<Rightarrow>
        fst (Json sample_decoder r) = Panics NilDereference \<and>
        fst (Xml (\<lambda>cs. sample_decoder) r (Some ''latin1'')) = Panics NilDereference)"
  by (simp add: buildResponse_def Json_def Xml_def sample_decoder_def getInternalReader_def
        reader_Read_def Read_def defer_Close_def Close_def drop_EOF_def)

text \<open>
  C7, amended. For every Response that has a raw response (one constructed without a transport
  error), whatever the internal buffer and whatever the decoder does: \<^verbatim>\<open>Json\<close> and
  \<^verbatim>\<open>Xml\<close> return; a decoder result of \<^verbatim>\<open>io.EOF\<close> is returned as nil, every other
  decoder result (nil or an error) is returned as it is; and the raw body has received one more
  \<^verbatim>\<open>Close\<close> when the call returns, whether decoding succeeded or failed.
\<close>

theorem Json_Xml_contract:
  assumes "RawResponse r = Some rp"
  shows "(\<exists>e r1. Decode dec (getInternalReader r) r = (Returns e, r1) \<and>
            fst (Json dec r) = Returns (if e = Some EOF then None else e) \<and>
            body_closes (snd (Json dec r)) = Suc (body_closes r)) \<and>
         (\<exists>e r1. Decode (xml_NewDecoder cs) (getInternalReader r) r = (Returns e, r1) \<and>
            fst (Xml xml_NewDecoder r cs) = Returns (if e = Some EOF then None else e) \<and>
            body_closes (snd (Xml xml_NewDecoder r cs)) = Suc (body_closes r))"
proof -
  have raw: "RawResponse r \<noteq> None"
    using assms by simp
  have run: "\<exists>e r1. Decode d (getInternalReader r) r = (Returns e, r1) \<and>
      fst (defer_Close (drop_EOF (Returns e), r1)) = Returns (if e = Some EOF then None else e) \<and>
      body_closes (snd (defer_Close (drop_EOF (Returns e), r1))) = Suc (body_closes r)" for d
  proof -
    from Decode_raw [OF raw refl, of d] obtain e r1 where
      dec: "Decode d (getInternalReader r) r = (Returns e, r1)"
      and raw1: "RawResponse r1 \<noteq> None" and cl: "body_closes r1 = body_closes r"
      by blast
    from dec cl show ?thesis
      by (simp add: drop_EOF_Returns defer_Close_raw [OF raw1])
  qed
  have cs: "(if cs \<noteq> None then cs else None) = cs"
    by simp
  from run [of dec] have json: "\<exists>e r1. Decode dec (getInternalReader r) r = (Returns e, r1) \<and>
      fst (Json dec r) = Returns (if e = Some EOF then None else e) \<and>
      body_closes (snd (Json dec r)) = Suc (body_closes r)"
    by (auto simp: Json_def)
  from run [of "xml_NewDecoder cs"]
  have xml: "\<exists>e r1. Decode (xml_NewDecoder cs) (getInternalReader r) r = (Returns e, r1) \<and>
      fst (Xml xml_NewDecoder r cs) = Returns (if e = Some EOF then None else e) \<and>
      body_closes (snd (Xml xml_NewDecoder r cs)) = Suc (body_closes r)"
    by (auto simp: Xml_def cs)
  from json xml show ?thesis
    by blast
qed

theorem Json_Xml_contract_witness:
  "\<exists>r r2.
     buildResponse (Some (exchange 200 [] 0)) None = Returns r \<and>
     RawResponse r = Some (exchange 200 [] 0) \<and>
     fst (Decode sample_decoder (getInternalReader r) r) = Returns (Some EOF) \<and>
     fst (Json sample_decoder r) = Returns None \<and>
     body_closes (snd (Json sample_decoder r)) = 1 \<and>
     fst (Xml (\<lambda>cs. sample_decoder) r (Some ''latin1'')) = Returns None \<and>
     body_closes (snd (Xml (\<lambda>cs. sample_decoder) r (Some ''latin1''))) = 1 \<and>
     buildResponse (Some (exchange 200 [(''{'', None)] 1)) None = Returns r2 \<and>
     RawResponse r2 = Some (exchange 200 [(''{'', None)] 1) \<and>
     fst (Json sample_decoder r2) = Returns (Some (Err ''invalid character'')) \<and>
     body_closes (snd (Json sample_decoder r2)) = 1 \<and>
     fst (Xml (\<lambda>cs. sample_decoder) r2 (Some ''latin1'')) =
       Returns (Some (Err ''invalid character'')) \<and>
     body_closes (snd (Xml (\<lambda>cs. sample_decoder) r2 (Some ''latin1''))) = 1"
proof -
  define r where "r =
    \<lparr>Ok = True, Error = None, RawResponse = Some (exchange 200 [] 0),
     StatusCode = 200, Header = Some Map.empty, internalByteBuffer = None\<rparr>"
  define r2 where "r2 =
    \<lparr>Ok = True, Error = None, RawResponse = Some (exchange 200 [(''{'', None)] 1),
     StatusCode = 200, Header = Some Map.empty, internalByteBuffer = None\<rparr>"
  have built: "buildResponse (Some (exchange 200 [] 0)) None = Returns r"
    by (simp add: r_def buildResponse_def exchange_def)
  have built2: "buildResponse (Some (exchange 200 [(''{'', None)] 1)) None = Returns r2"
    by (simp add: r2_def buildResponse_def exchange_def)
  have raw: "RawResponse r = Some (exchange 200 [] 0)"
    by (simp add: r_def)
  have raw2: "RawResponse r2 = Some (exchange 200 [(''{'', None)] 1)"
    by (simp add: r2_def)
  have closes0: "body_closes r = 0" "body_closes r2 = 0"
    by (simp_all add: r_def r2_def body_closes_def exchange_def)
  have dec: "fst (Decode sample_decoder (getInternalReader r) r) = Returns (Some EOF)"
    by (simp add: r_def sample_decoder_def getInternalReader_def reader_Read_def Read_def
          body_Read_def exchange_def)
  have dec2: "fst (Decode sample_decoder (getInternalReader r2) r2) =
      Returns (Some (Err ''invalid character''))"
    by (simp add: r2_def sample_decoder_def getInternalReader_def reader_Read_def Read_def
          body_Read_def exchange_def)
  from Json_Xml_contract [OF raw, of sample_decoder "\<lambda>cs. sample_decoder" "Some ''latin1''"]
    dec closes0
  have eof: "fst (Json sample_decoder r) = Returns None \<and>
     body_closes (snd (Json sample_decoder r)) = 1 \<and>
     fst (Xml (\<lambda>cs. sample_decoder) r (Some ''latin1'')) = Returns None \<and>
     body_closes (snd (Xml (\<lambda>cs. sample_decoder) r (Some ''latin1''))) = 1"
    by auto
  from Json_Xml_contract [OF raw2, of sample_decoder "\<lambda>cs. sample_decoder" "Some ''latin1''"]
    dec2 closes0
  have bad: "fst (Json sample_decoder r2) = Returns (Some (Err ''invalid character'')) \<and>
     body_closes (snd (Json sample_decoder r2)) = 1 \<and>
     fst (Xml (\<lambda>cs. sample_decoder) r2 (Some ''latin1'')) =
       Returns (Some (Err ''invalid character'')) \<and>
     body_closes (snd (Xml (\<lambda>cs. sample_decoder) r2 (Some ''latin1''))) = 1"
    by auto
  from built raw dec eof built2 raw2 bad show ?thesis
    by blast
qed

section \<open>Downloading\<close>

lemma file_Write_closes:
  "file_closes (snd (file_Write fd bs)) = file_closes fd"
  by (simp add: file_Write_def split: list.splits option.splits prod.splits)

lemma io_Copy_generic_raw:
  assumes "RawResponse r = Some rp" and "pending (resp_Body rp) = s"
  shows "\<exists>e fd' r'. io_Copy_generic fd r = (Returns e, fd', r') \<and>
           RawResponse r' \<noteq> None \<and> body_closes r' = body_closes r \<and>
           internalByteBuffer r' = internalByteBuffer r \<and>
           file_closes fd' = file_closes fd"
  using assms
proof (induction s arbitrary: fd r rp)
  case Nil
  then show ?case
    by (subst io_Copy_generic.simps) (simp add: Read_Nil body_closes_def)
next
  case (Cons x xs)
  obtain bs er where x: "x = (bs, er)"
    by (cases x)
  define rp1 where "rp1 = rp\<lparr>resp_Body :=
        (resp_Body rp)\<lparr>pending := xs, reads := Suc (reads (resp_Body rp))\<rparr>\<rparr>"
  define r1 where "r1 = r\<lparr>RawResponse := Some rp1\<rparr>"
  have rd: "Read r = (Returns (bs, er), r1)"
    using Read_Cons [OF Cons.prems] by (simp add: x r1_def rp1_def)
  have frame: "RawResponse r1 \<noteq> None" "body_closes r1 = body_closes r"
    "internalByteBuffer r1 = internalByteBuffer r"
    using Cons.prems(1) by (simp_all add: r1_def rp1_def body_closes_def)
  have IH: "\<exists>e fd' r'. io_Copy_generic fd1 r1 = (Returns e, fd', r') \<and>
           RawResponse r' \<noteq> None \<and> body_closes r' = body_closes r1 \<and>
           internalByteBuffer r' = internalByteBuffer r1 \<and>
           file_closes fd' = file_closes fd1" for fd1
    by (rule Cons.IH [of r1 rp1 fd1]) (simp_all add: r1_def rp1_def)
  obtain nw ew fd1 where w: "(if bs \<noteq> [] then file_Write fd bs else ((0, None), fd)) = ((nw, ew), fd1)"
    by (metis prod.exhaust)
  then have cl: "file_closes fd1 = file_closes fd"
    using file_Write_closes [of fd bs] by (auto split: if_splits)
  show ?case
    using rd w cl frame IH [of fd1]
    by (subst io_Copy_generic.simps) (auto split: option.splits error.splits)
qed

lemma file_Write_no_EOF:
  "snd (fst (file_Write fd bs)) \<noteq> Some EOF"
  by (simp add: file_Write_def split: list.splits option.splits prod.splits)

lemma io_Copy_generic_no_EOF:
  assumes "RawResponse r = Some rp" and "pending (resp_Body rp) = s"
  shows "fst (io_Copy_generic fd r) \<noteq> Returns (Some EOF)"
  using assms
proof (induction s arbitrary: fd r rp)
  case Nil
  then show ?case
    by (subst io_Copy_generic.simps) (simp add: Read_Nil)
next
  case (Cons x xs)
  obtain bs er where x: "x = (bs, er)"
    by (cases x)
  define rp1 where "rp1 = rp\<lparr>resp_Body :=
        (resp_Body rp)\<lparr>pending := xs, reads := Suc (reads (resp_Body rp))\<rparr>\<rparr>"
  define r1 where "r1 = r\<lparr>RawResponse := Some rp1\<rparr>"
  have rd: "Read r = (Returns (bs, er), r1)"
    using Read_Cons [OF Cons.prems] by (simp add: x r1_def rp1_def)
  have IH: "fst (io_Copy_generic fd1 r1) \<noteq> Returns (Some EOF)" for fd1
    by (rule Cons.IH [of r1 rp1 fd1]) (simp_all add: r1_def rp1_def)
  obtain nw ew fd1 where w: "(if bs \<noteq> [] then file_Write fd bs else ((0, None), fd)) = ((nw, ew), fd1)"
    by (metis prod.exhaust)
  then have ew: "ew \<noteq> Some EOF"
    using file_Write_no_EOF [of fd bs] by (auto split: if_splits)
  show ?case
    using rd w ew IH [of fd1]
    by (subst io_Copy_generic.simps)
       (auto simp: ErrShortWrite_def split: option.splits error.splits)
qed

lemma io_Copy_generic_clean:
  assumes "RawResponse r = Some rp" and "pending (resp_Body rp) = s"
    and "write_results fd = []"
  shows "fst (io_Copy_generic fd r) =
           Returns (if stream_error s = EOF then None else Some (stream_error s)) \<and>
         fst (snd (io_Copy_generic fd r)) = fd\<lparr>contents := contents fd @ stream_bytes s\<rparr>"
  using assms
proof (induction s arbitrary: fd r rp)
  case Nil
  then show ?case
    by (subst (1 2) io_Copy_generic.simps) (simp add: Read_Nil)
next
  case (Cons x xs)
  obtain bs er where x: "x = (bs, er)"
    by (cases x)
  define rp1 where "rp1 = rp\<lparr>resp_Body :=
        (resp_Body rp)\<lparr>pending := xs, reads := Suc (reads (resp_Body rp))\<rparr>\<rparr>"
  define r1 where "r1 = r\<lparr>RawResponse := Some rp1\<rparr>"
  define fd1 where "fd1 = fd\<lparr>contents := contents fd @ bs\<rparr>"
  have rd: "Read r = (Returns (bs, er), r1)"
    using Read_Cons [OF Cons.prems(1,2)] by (simp add: x r1_def rp1_def)
  have w: "(if bs \<noteq> [] then file_Write fd bs else ((0, None), fd)) = ((length bs, None), fd1)"
    using Cons.prems(3) by (simp add: file_Write_def fd1_def)
  have IH: "fst (io_Copy_generic fd1 r1) =
           Returns (if stream_error xs = EOF then None else Some (stream_error xs)) \<and>
         fst (snd (io_Copy_generic fd1 r1)) = fd1\<lparr>contents := contents fd1 @ stream_bytes xs\<rparr>"
    by (rule Cons.IH [of r1 rp1 fd1]) (simp_all add: r1_def rp1_def fd1_def Cons.prems(3))
  show ?case
    using rd w IH
    by (subst (1 2) io_Copy_generic.simps)
       (auto simp: x fd1_def split: option.splits error.splits)
qed

lemma file_Write_complete:
  assumes "file_Write fd bs = ((m, None), fd')"
  shows "m = length bs" and "contents fd' = contents fd @ bs"
  using assms
  by (auto simp: file_Write_def split: list.splits option.splits prod.splits)

lemma Buffer_WriteTo_buffer:
  assumes "internalByteBuffer r = Some buf"
  shows "\<exists>e fd' m. Buffer_WriteTo fd r = (Returns e, fd', r\<lparr>internalByteBuffer := Some (drop m buf)\<rparr>) \<and>
           e \<noteq> Some EOF \<and> file_closes fd' = file_closes fd \<and>
           (e = None \<longrightarrow> drop m buf = [] \<and> contents fd' = contents fd @ buf)"
proof (cases "buf = []")
  case True
  with assms have "Buffer_WriteTo fd r = (Returns None, fd, r\<lparr>internalByteBuffer := Some (drop 0 buf)\<rparr>)"
    by (simp add: Buffer_WriteTo_def)
  moreover have "drop 0 buf = [] \<and> contents fd = contents fd @ buf"
    using True by simp
  ultimately show ?thesis
    by blast
next
  case False
  obtain m e fd' where w: "file_Write fd buf = ((m, e), fd')"
    by (metis prod.exhaust)
  with file_Write_no_EOF [of fd buf] file_Write_closes [of fd buf]
  have e: "e \<noteq> Some EOF" and cl: "file_closes fd' = file_closes fd"
    by simp_all
  show ?thesis
  proof (cases e)
    case None
    with w have full: "m = length buf" "contents fd' = contents fd @ buf"
      by (simp_all add: file_Write_complete)
    with None assms False w have
      "Buffer_WriteTo fd r = (Returns None, fd', r\<lparr>internalByteBuffer := Some (drop m buf)\<rparr>)"
      by (simp add: Buffer_WriteTo_def)
    moreover have "drop m buf = []"
      using full by simp
    ultimately show ?thesis
      using full cl by blast
  next
    case (Some err)
    with assms False w have
      "Buffer_WriteTo fd r = (Returns e, fd', r\<lparr>internalByteBuffer := Some (drop m buf)\<rparr>)"
      by (simp add: Buffer_WriteTo_def)
    with Some e cl show ?thesis
      by blast
  qed
qed

lemma DownloadToFile_created:
  assumes "os_Create fileName = Inr fd"
    and "io_Copy fd (getInternalReader r) r = (Returns e, fd1, r1)"
    and "e \<noteq> Some EOF"
    and "RawResponse r1 \<noteq> None"
  shows "DownloadToFile os_Create r fileName =
           (Returns e, snd (defer_Close (Returns e, r1)), Some (file_Close fd1))"
proof -
  have "drop_EOF (Returns e) = Returns e"
    using assms(3) by (simp add: drop_EOF_def)
  moreover have "fst (defer_Close (Returns e, r1)) = Returns e"
    by (rule defer_Close_raw(1) [OF assms(4)])
  ultimately show ?thesis
    using assms(1,2) by (simp add: DownloadToFile_def case_prod_beta)
qed

text \<open>
  C8, as the claim states it, fails on a buffer-backed Response: the copy reads from the
  internal buffer, and reading a \<^verbatim>\<open>bytes.Buffer\<close> consumes it. After \<^verbatim>\<open>Bytes\<close> has
  buffered the body \<^verbatim>\<open>hello\<close>, \<^verbatim>\<open>DownloadToFile\<close> writes the five bytes to the file and
  leaves the internal buffer empty. It also fails on a Response constructed from a transport
  error: the file is created and closed, but there is no source stream to close, and the call
  panics on the nil \<^verbatim>\<open>RawResponse\<close>.
\<close>

theorem DownloadToFile_drains_buffer:
  "(case buildResponse (Some (exchange 200 [(''hello'', None)] 5)) None of
      Panics p \<Rightarrow> False
    | Returns r0 \<Rightarrow>
        (let r = snd (Bytes r0);
             out = DownloadToFile (create_ok []) r ''body.txt''
         in internalByteBuffer r = Some ''hello'' \<and>
            fst out = Returns None \<and>
            internalByteBuffer (fst (snd out)) = Some [] \<and>
            map_option contents (snd (snd out)) = Some ''hello'')) \<and>
   (case buildResponse None (Some (Err ''no such host'')) of
      Panics p \<Rightarrow> False
    | Returns r \<Rightarrow>
        (let out = DownloadToFile (create_ok []) r ''body.txt''
         in fst out = Panics NilDereference \<and>
            map_option file_closes (snd (snd out)) = Some 1))"
  by (simp add: buildResponse_def exchange_def create_ok_def Bytes_def respBytesBuffer_def
        DownloadToFile_def io_Copy_def Buffer_WriteTo_def getInternalReader_def file_Write_def
        file_Close_def defer_Close_def Close_def body_Close_def Buffer_Grow_def
        Buffer_ReadFrom.simps io_Copy_generic.simps Read_def body_Read_def drop_EOF_def)

text \<open>
  C8, amended. For every Response that has a raw response, once \<^verbatim>\<open>os.Create\<close> has succeeded:
  \<^verbatim>\<open>DownloadToFile\<close> returns, never with \<^verbatim>\<open>io.EOF\<close>; on that return, whatever the copy
  did, the file and the raw body have each received one more \<^verbatim>\<open>Close\<close>; a Response without
  an internal buffer still has none (the buffer is never populated), and when no write fails the
  result is nil if the body ends with \<^verbatim>\<open>io.EOF\<close>, the body's read error otherwise, and the
  file holds the bytes read; a Response with an internal buffer keeps a buffer, of which the
  copy has consumed the bytes it wrote: when the result is nil the buffer is empty and the file
  holds its former contents.
\<close>

theorem DownloadToFile_contract:
  assumes "RawResponse r = Some rp" and "os_Create fileName = Inr fd"
  shows "\<exists>err r' fd'.
     DownloadToFile os_Create r fileName = (Returns err, r', Some fd') \<and>
     err \<noteq> Some EOF \<and>
     file_closes fd' = Suc (file_closes fd) \<and>
     body_closes r' = Suc (body_closes r) \<and>
     (internalByteBuffer r = None \<longrightarrow> internalByteBuffer r' = None) \<and>
     (internalByteBuffer r = None \<and> write_results fd = [] \<longrightarrow>
        err = (if stream_error (pending (resp_Body rp)) = EOF then None
               else Some (stream_error (pending (resp_Body rp)))) \<and>
        contents fd' = contents fd @ stream_bytes (pending (resp_Body rp))) \<and>
     (\<forall>buf. internalByteBuffer r = Some buf \<longrightarrow>
        (\<exists>m. internalByteBuffer r' = Some (drop m buf)) \<and>
        (err = None \<longrightarrow> internalByteBuffer r' = Some [] \<and> contents fd' = contents fd @ buf))"
proof (cases "internalByteBuffer r")
  case None
  then have src: "io_Copy fd (getInternalReader r) r = io_Copy_generic fd r"
    by (simp add: io_Copy_def getInternalReader_def)
  from io_Copy_generic_raw [OF assms(1) refl, of fd] obtain e fd1 r1 where
    copy: "io_Copy_generic fd r = (Returns e, fd1, r1)"
    and raw1: "RawResponse r1 \<noteq> None"
    and cl1: "body_closes r1 = body_closes r"
    and buf1: "internalByteBuffer r1 = internalByteBuffer r"
    and fcl1: "file_closes fd1 = file_closes fd"
    by blast
  from io_Copy_generic_no_EOF [OF assms(1) refl, of fd] copy have e: "e \<noteq> Some EOF"
    by simp
  define r' where "r' = snd (defer_Close (Returns e, r1))"
  have "io_Copy fd (getInternalReader r) r = (Returns e, fd1, r1)"
    using src copy by simp
  from DownloadToFile_created [where os_Create = os_Create and fileName = fileName,
      OF assms(2) this e raw1]
  have run: "DownloadToFile os_Create r fileName = (Returns e, r', Some (file_Close fd1))"
    by (simp add: r'_def)
  have closes: "body_closes r' = Suc (body_closes r)"
    using defer_Close_raw(2) [OF raw1, of "Returns e"] cl1 by (simp add: r'_def)
  have buffer: "internalByteBuffer r' = None"
    using defer_Close_buffer [of "Returns e" r1] buf1 None by (simp add: r'_def)
  have fcloses: "file_closes (file_Close fd1) = Suc (file_closes fd)"
    using fcl1 by (simp add: file_Close_def)
  have clean: "e = (if stream_error (pending (resp_Body rp)) = EOF then None
               else Some (stream_error (pending (resp_Body rp)))) \<and>
        contents (file_Close fd1) = contents fd @ stream_bytes (pending (resp_Body rp))"
    if "write_results fd = []"
    using io_Copy_generic_clean [OF assms(1) refl that] copy by (simp add: file_Close_def)
  from run e fcloses closes buffer clean None show ?thesis
    by auto
next
  case (Some buf)
  then have src: "io_Copy fd (getInternalReader r) r = Buffer_WriteTo fd r"
    by (simp add: io_Copy_def getInternalReader_def)
  from Buffer_WriteTo_buffer [OF Some, of fd] obtain e fd1 m where
    copy: "Buffer_WriteTo fd r = (Returns e, fd1, r\<lparr>internalByteBuffer := Some (drop m buf)\<rparr>)"
    and e: "e \<noteq> Some EOF"
    and fcl1: "file_closes fd1 = file_closes fd"
    and full: "e = None \<longrightarrow> drop m buf = [] \<and> contents fd1 = contents fd @ buf"
    by blast
  define r1 where "r1 = r\<lparr>internalByteBuffer := Some (drop m buf)\<rparr>"
  have raw1: "RawResponse r1 \<noteq> None" and cl1: "body_closes r1 = body_closes r"
    using assms(1) by (simp_all add: r1_def body_closes_def)
  define r' where "r' = snd (defer_Close (Returns e, r1))"
  have "io_Copy fd (getInternalReader r) r = (Returns e, fd1, r1)"
    using src copy by (simp add: r1_def)
  from DownloadToFile_created [where os_Create = os_Create and fileName = fileName,
      OF assms(2) this e raw1]
  have run: "DownloadToFile os_Create r fileName = (Returns e, r', Some (file_Close fd1))"
    by (simp add: r'_def)
  have closes: "body_closes r' = Suc (body_closes r)"
    using defer_Close_raw(2) [OF raw1, of "Returns e"] cl1 by (simp add: r'_def)
  have buffer: "internalByteBuffer r' = Some (drop m buf)"
    using defer_Close_buffer [of "Returns e" r1] by (simp add: r'_def r1_def)
  have fcloses: "file_closes (file_Close fd1) = Suc (file_closes fd)"
    using fcl1 by (simp add: file_Close_def)
  have drained: "e = None \<longrightarrow>
      internalByteBuffer r' = Some [] \<and> contents (file_Close fd1) = contents fd @ buf"
    using full buffer by (simp add: file_Close_def)
  from run e fcloses closes buffer drained Some show ?thesis
    by auto
qed

theorem DownloadToFile_contract_witness:
  "(\<exists>r err r' fd'.
      buildResponse (Some (exchange 200 [(''he'', None), (''llo'', None)] 5)) None = Returns r \<and>
      RawResponse r = Some (exchange 200 [(''he'', None), (''llo'', None)] 5) \<and>
      create_ok [] ''body.txt'' = Inr \<lparr>contents = [], write_results = [], file_closes = 0\<rparr> \<and>
      DownloadToFile (create_ok []) r ''body.txt'' = (Returns err, r', Some fd') \<and>
      err = None \<and> contents fd' = ''hello'' \<and> file_closes fd' = 1 \<and>
      body_closes r' = 1 \<and> internalByteBuffer r' = None) \<and>
   (\<exists>r err r' fd'.
      buildResponse
        (Some (exchange 200 [(''he'', None), ('''', Some (Err ''connection reset by peer''))] 5))
        None = Returns r \<and>
      DownloadToFile (create_ok []) r ''body.txt'' = (Returns err, r', Some fd') \<and>
      err = Some (Err ''connection reset by peer'') \<and> contents fd' = ''he'' \<and>
      file_closes fd' = 1 \<and> body_closes r' = 1 \<and> internalByteBuffer r' = None) \<and>
   (\<exists>r0 r err r' fd'.
      buildResponse (Some (exchange 200 [(''hello'', None)] 5)) None = Returns r0 \<and>
      Bytes r0 = (Returns ''hello'', r) \<and> RawResponse r \<noteq> None \<and> body_closes r = 1 \<and>
      DownloadToFile (create_ok []) r ''body.txt'' = (Returns err, r', Some fd') \<and>
      err = None \<and> contents fd' = ''hello'' \<and> file_closes fd' = 1 \<and>
      body_closes r' = 2 \<and> internalByteBuffer r' = Some [])"
proof -
  define fd where "fd = \<lparr>contents = [], write_results = [], file_closes = 0\<rparr>"
  have created: "create_ok [] ''body.txt'' = Inr fd"
    by (simp add: create_ok_def fd_def)
  have fd: "contents fd = []" "write_results fd = []" "file_closes fd = 0"
    by (simp_all add: fd_def)

  define ra where "ra =
    \<lparr>Ok = True, Error = None,
     RawResponse = Some (exchange 200 [(''he'', None), (''llo'', None)] 5),
     StatusCode = 200, Header = Some Map.empty, internalByteBuffer = None\<rparr>"
  have built_a: "buildResponse (Some (exchange 200 [(''he'', None), (''llo'', None)] 5)) None =
      Returns ra"
    by (simp add: ra_def buildResponse_def exchange_def)
  have raw_a: "RawResponse ra = Some (exchange 200 [(''he'', None), (''llo'', None)] 5)"
    and none_a: "internalByteBuffer ra = None" and closes_a: "body_closes ra = 0"
    by (simp_all add: ra_def body_closes_def exchange_def)
  have script_a: "stream_error (pending (resp_Body (exchange 200 [(''he'', None), (''llo'', None)] 5))) = EOF"
    "stream_bytes (pending (resp_Body (exchange 200 [(''he'', None), (''llo'', None)] 5))) = ''hello''"
    by (simp_all add: exchange_def)
  from DownloadToFile_contract
      [where os_Create = "create_ok []" and fileName = "''body.txt''", OF raw_a created] none_a closes_a fd script_a
  have a: "\<exists>err r' fd'.
      DownloadToFile (create_ok []) ra ''body.txt'' = (Returns err, r', Some fd') \<and>
      err = None \<and> contents fd' = ''hello'' \<and> file_closes fd' = 1 \<and>
      body_closes r' = 1 \<and> internalByteBuffer r' = None"
    by auto

  define rb where "rb =
    \<lparr>Ok = True, Error = None,
     RawResponse =
       Some (exchange 200 [(''he'', None), ('''', Some (Err ''connection reset by peer''))] 5),
     StatusCode = 200, Header = Some Map.empty, internalByteBuffer = None\<rparr>"
  have built_b: "buildResponse
        (Some (exchange 200 [(''he'', None), ('''', Some (Err ''connection reset by peer''))] 5))
        None = Returns rb"
    by (simp add: rb_def buildResponse_def exchange_def)
  have raw_b: "RawResponse rb =
      Some (exchange 200 [(''he'', None), ('''', Some (Err ''connection reset by peer''))] 5)"
    and none_b: "internalByteBuffer rb = None" and closes_b: "body_closes rb = 0"
    by (simp_all add: rb_def body_closes_def exchange_def)
  have script_b: "stream_error (pending (resp_Body
        (exchange 200 [(''he'', None), ('''', Some (Err ''connection reset by peer''))] 5))) =
      Err ''connection reset by peer''"
    "stream_bytes (pending (resp_Body
        (exchange 200 [(''he'', None), ('''', Some (Err ''connection reset by peer''))] 5))) =
      ''he''"
    by (simp_all add: exchange_def)
  from DownloadToFile_contract
      [where os_Create = "create_ok []" and fileName = "''body.txt''", OF raw_b created] none_b closes_b fd script_b
  have b: "\<exists>err r' fd'.
      DownloadToFile (create_ok []) rb ''body.txt'' = (Returns err, r', Some fd') \<and>
      err = Some (Err ''connection reset by peer'') \<and> contents fd' = ''he'' \<and>
      file_closes fd' = 1 \<and> body_closes r' = 1 \<and> internalByteBuffer r' = None"
    by auto

  define r0 where "r0 =
    \<lparr>Ok = True, Error = None, RawResponse = Some (exchange 200 [(''hello'', None)] 5),
     StatusCode = 200, Header = Some Map.empty, internalByteBuffer = None\<rparr>"
  define rp where "rp = (exchange 200 [] 5)
      \<lparr>resp_Body := \<lparr>pending = [], reads = 2, closes = 1, close_result = None\<rparr>\<rparr>"
  define rc where "rc = r0\<lparr>RawResponse := Some rp, internalByteBuffer := Some ''hello''\<rparr>"
  have built_c: "buildResponse (Some (exchange 200 [(''hello'', None)] 5)) None = Returns r0"
    by (simp add: r0_def buildResponse_def exchange_def)
  have bytes_c: "Bytes r0 = (Returns ''hello'', rc)"
    by (simp add: r0_def rc_def rp_def Bytes_def respBytesBuffer_def exchange_def
          defer_Close_def Close_def body_Close_def Buffer_Grow_def Buffer_ReadFrom.simps
          Read_def body_Read_def drop_EOF_def)
  have raw_c: "RawResponse rc = Some rp" and some_c: "internalByteBuffer rc = Some ''hello''"
    and closes_c: "body_closes rc = 1"
    by (simp_all add: rc_def rp_def body_closes_def exchange_def)
  from DownloadToFile_contract
      [where os_Create = "create_ok []" and fileName = "''body.txt''", OF raw_c created] obtain err r' fd' where
    run: "DownloadToFile (create_ok []) rc ''body.txt'' = (Returns err, r', Some fd')"
    and fcl: "file_closes fd' = Suc (file_closes fd)"
    and cl: "body_closes r' = Suc (body_closes rc)"
    and drop: "\<exists>m. internalByteBuffer r' = Some (drop m ''hello'')"
    and full: "err = None \<longrightarrow> internalByteBuffer r' = Some [] \<and> contents fd' = contents fd @ ''hello''"
    using some_c by auto
  have "fst (DownloadToFile (create_ok []) rc ''body.txt'') = Returns None"
    by (simp add: rc_def r0_def create_ok_def DownloadToFile_def io_Copy_def Buffer_WriteTo_def
          getInternalReader_def file_Write_def file_Close_def defer_Close_def Close_def
          body_Close_def drop_EOF_def)
  with run have "err = None"
    by simp
  with run fcl cl full fd closes_c
  have c: "\<exists>err r' fd'.
      DownloadToFile (create_ok []) rc ''body.txt'' = (Returns err, r', Some fd') \<and>
      err = None \<and> contents fd' = ''hello'' \<and> file_closes fd' = 1 \<and>
      body_closes r' = 2 \<and> internalByteBuffer r' = Some []"
    by auto
  from a built_a raw_a created have A: "\<exists>r err r' fd'.
      buildResponse (Some (exchange 200 [(''he'', None), (''llo'', None)] 5)) None = Returns r \<and>
      RawResponse r = Some (exchange 200 [(''he'', None), (''llo'', None)] 5) \<and>
      create_ok [] ''body.txt'' = Inr \<lparr>contents = [], write_results = [], file_closes = 0\<rparr> \<and>
      DownloadToFile (create_ok []) r ''body.txt'' = (Returns err, r', Some fd') \<and>
      err = None \<and> contents fd' = ''hello'' \<and> file_closes fd' = 1 \<and>
      body_closes r' = 1 \<and> internalByteBuffer r' = None"
    unfolding fd_def by blast
  from b built_b have B: "\<exists>r err r' fd'.
      buildResponse
        (Some (exchange 200 [(''he'', None), ('''', Some (Err ''connection reset by peer''))] 5))
        None = Returns r \<and>
      DownloadToFile (create_ok []) r ''body.txt'' = (Returns err, r', Some fd') \<and>
      err = Some (Err ''connection reset by peer'') \<and> contents fd' = ''he'' \<and>
      file_closes fd' = 1 \<and> body_closes r' = 1 \<and> internalByteBuffer r' = None"
    by blast
  from raw_c have "RawResponse rc \<noteq> None"
    by simp
  with c built_c bytes_c closes_c have C: "\<exists>r0 r err r' fd'.
      buildResponse (Some (exchange 200 [(''hello'', None)] 5)) None = Returns r0 \<and>
      Bytes r0 = (Returns ''hello'', r) \<and> RawResponse r \<noteq> None \<and> body_closes r = 1 \<and>
      DownloadToFile (create_ok []) r ''body.txt'' = (Returns err, r', Some fd') \<and>
      err = None \<and> contents fd' = ''hello'' \<and> file_closes fd' = 1 \<and>
      body_closes r' = 2 \<and> internalByteBuffer r' = Some []"
    by blast
  from A B C show ?thesis
    by blast
qed

end
